theory Spec2Isabelle
  imports Main "HOL-Library.Log_Nat" "HOL-Library.Multiset"
begin

section \<open>Numbers\<close>

text \<open>
  A TypeScript \<open>number\<close> is an IEEE-754 binary64 value. The finite ones are modelled by
  the rational they denote; every arithmetic operator of the source (\<open>+\<close>, \<open>-\<close>, \<open>*\<close>,
  \<open>/\<close>) and every decimal literal yields the exact result rounded to the nearest binary64
  value, ties to the even significand (\<open>fl\<close>). The exponent is left unbounded: the
  numbers this code computes (table entries, their products and differences, sums of
  fewer than \<open>2^32\<close> of them, averages) are \<open>0\<close> or of a magnitude between \<open>0.3\<close> and
  \<open>2^36\<close>, far inside the binary64 exponent range, so that neither overflow nor gradual
  underflow occurs, and on typed input no operation yields \<open>NaN\<close>. Comparisons, \<open>Math.max\<close>,
  \<open>Math.min\<close> and \<open>Math.round\<close> are exact.
\<close>

type_synonym number = rat

text \<open>\<open>binade x\<close> is the exponent \<open>e\<close> with \<open>2^e \<le> x < 2^(e+1)\<close>, for positive \<open>x\<close>.\<close>

definition binade :: "rat \<Rightarrow> int" where
  "binade x = (if 1 \<le> x then bitlen \<lfloor>x\<rfloor> - 1 else - bitlen (\<lceil>1 / x\<rceil> - 1))"

definition round_half_even :: "rat \<Rightarrow> int" where
  "round_half_even y =
     (let n = \<lfloor>y\<rfloor>; r = y - of_int n
      in if r < 1 / 2 then n else if 1 / 2 < r then n + 1 else if even n then n else n + 1)"

text \<open>Rounding to 53 significant bits: the spacing of binary64 values around \<open>x\<close> is
  \<open>2^(binade \<bar>x\<bar> - 52)\<close>.\<close>

definition fl :: "rat \<Rightarrow> number" where
  "fl x = (if x = 0 then 0
           else let p = 2 powi (binade \<bar>x\<bar> - 52) in p * of_int (round_half_even (x / p)))"

definition js_add :: "number \<Rightarrow> number \<Rightarrow> number" where
  "js_add a b = fl (a + b)"

definition js_sub :: "number \<Rightarrow> number \<Rightarrow> number" where
  "js_sub a b = fl (a - b)"

definition js_mul :: "number \<Rightarrow> number \<Rightarrow> number" where
  "js_mul a b = fl (a * b)"

definition js_div :: "number \<Rightarrow> number \<Rightarrow> number" where
  "js_div a b = fl (a / b)"

text \<open>\<open>a || b\<close> on numbers: \<open>0\<close> is falsy, every other finite number is truthy.\<close>

definition js_or :: "number \<Rightarrow> number \<Rightarrow> number" where
  "js_or a b = (if a = 0 then b else a)"

text \<open>\<open>Math.round\<close>: the nearest integer, a tie going towards \<open>+\<infinity>\<close>.\<close>

definition Math_round :: "number \<Rightarrow> number" where
  "Math_round x = of_int \<lfloor>x + 1 / 2\<rfloor>"

definition Math_max :: "number \<Rightarrow> number \<Rightarrow> number" where
  "Math_max a b = max a b"

definition Math_min :: "number \<Rightarrow> number \<Rightarrow> number" where
  "Math_min a b = min a b"

section \<open>Data model (types.ts)\<close>

datatype SignalType =
    whale_movement
  | liquidity_change
  | holder_concentration
  | contract_risk
  | price_manipulation
  | rugpull_risk
  | honeypot
  | mint_authority
  | social_sentiment

datatype SignalSeverity = info | low | medium | high | critical

text \<open>Strings are modelled by their UTF-8 bytes. The optional fields are options; the
  values of \<open>metadata\<close> have type \<open>unknown\<close> in the source and are a type parameter here.\<close>

record 'm Signal =
  id' :: string
  type' :: SignalType
  severity :: SignalSeverity
  title :: string
  summary :: string
  details :: "string option"
  timestamp :: number
  metadata :: "(string \<times> 'm) list option"

text \<open>The string value of a severity (the literal types of \<open>SignalSeverity\<close>).\<close>

fun severity_string :: "SignalSeverity \<Rightarrow> string" where
  "severity_string info = ''info''"
| "severity_string low = ''low''"
| "severity_string medium = ''medium''"
| "severity_string high = ''high''"
| "severity_string critical = ''critical''"

section \<open>Signal utilities (signals.ts)\<close>

fun SEVERITY_WEIGHTS :: "SignalSeverity \<Rightarrow> number" where
  "SEVERITY_WEIGHTS info = 0"
| "SEVERITY_WEIGHTS low = 1"
| "SEVERITY_WEIGHTS medium = 2"
| "SEVERITY_WEIGHTS high = 3"
| "SEVERITY_WEIGHTS critical = 5"

fun TYPE_RISK_FACTORS :: "SignalType \<Rightarrow> number" where
  "TYPE_RISK_FACTORS whale_movement = fl (12 / 10)"
| "TYPE_RISK_FACTORS liquidity_change = fl (15 / 10)"
| "TYPE_RISK_FACTORS holder_concentration = fl (13 / 10)"
| "TYPE_RISK_FACTORS contract_risk = fl (20 / 10)"
| "TYPE_RISK_FACTORS price_manipulation = fl (18 / 10)"
| "TYPE_RISK_FACTORS rugpull_risk = fl (30 / 10)"
| "TYPE_RISK_FACTORS honeypot = fl (30 / 10)"
| "TYPE_RISK_FACTORS mint_authority = fl (25 / 10)"
| "TYPE_RISK_FACTORS social_sentiment = fl (8 / 10)"

text \<open>The body of the \<open>for (const signal of signals)\<close> loop of \<open>calculateRiskScore\<close>,
  on the pair \<open>(totalScore, maxScore)\<close>.\<close>

definition score_step :: "'m Signal \<Rightarrow> number \<times> number \<Rightarrow> number \<times> number" where
  "score_step signal st =
     (let totalScore = fst st; maxScore = snd st;
          severityWeight = js_or (SEVERITY_WEIGHTS (severity signal)) 1;
          typeFactor = js_or (TYPE_RISK_FACTORS (type' signal)) 1;
          signalScore = js_mul severityWeight typeFactor
      in (js_add totalScore signalScore, Math_max maxScore signalScore))"

fun score_loop :: "'m Signal list \<Rightarrow> number \<times> number \<Rightarrow> number \<times> number" where
  "score_loop [] st = st"
| "score_loop (signal # rest) st = score_loop rest (score_step signal st)"

definition calculateRiskScore :: "'m Signal list \<Rightarrow> number" where
  "calculateRiskScore signals =
     (if length signals = 0 then 0
      else
        let st = score_loop signals (0, 0);
            totalScore = fst st; maxScore = snd st;
            avgScore = js_div totalScore (of_nat (length signals));
            combinedScore = js_add (js_mul avgScore (fl (6 / 10))) (js_mul maxScore (fl (4 / 10)))
        in Math_min 100 (Math_round (js_mul combinedScore 10)))"

text \<open>Two names for parts of \<open>calculateRiskScore\<close>: the value of the local
  \<open>signalScore\<close> for a signal, and the last three statements as a function of
  \<open>avgScore\<close> and \<open>maxScore\<close>.\<close>

definition signalScore :: "'m Signal \<Rightarrow> number" where
  "signalScore signal =
     js_mul (js_or (SEVERITY_WEIGHTS (severity signal)) 1)
            (js_or (TYPE_RISK_FACTORS (type' signal)) 1)"

definition blend :: "number \<Rightarrow> number \<Rightarrow> number" where
  "blend avgScore maxScore =
     Math_min 100 (Math_round (js_mul
       (js_add (js_mul avgScore (fl (6 / 10))) (js_mul maxScore (fl (4 / 10)))) 10))"

definition filterBySeverity :: "'m Signal list \<Rightarrow> SignalSeverity \<Rightarrow> 'm Signal list" where
  "filterBySeverity signals minSeverity =
     (let minWeight = SEVERITY_WEIGHTS minSeverity
      in filter (\<lambda>s. SEVERITY_WEIGHTS (severity s) \<ge> minWeight) signals)"

definition filterByType :: "'m Signal list \<Rightarrow> SignalType list \<Rightarrow> 'm Signal list" where
  "filterByType signals types = filter (\<lambda>s. type' s \<in> set types) signals"

definition getCriticalSignals :: "'m Signal list \<Rightarrow> 'm Signal list" where
  "getCriticalSignals signals =
     filter (\<lambda>s. severity s = critical \<or> severity s = high) signals"

definition isHighRisk :: "'m Signal list \<Rightarrow> bool" where
  "isHighRisk signals =
     (let riskScore = calculateRiskScore signals
      in riskScore \<ge> 70 \<or>
         list_ex (\<lambda>s. type' s = honeypot \<or> type' s = rugpull_risk \<or> severity s = critical)
           signals)"

text \<open>The result type of \<open>getRiskLevel\<close>, the union of the literals \<open>'safe'\<close>, \<open>'low'\<close>,
  \<open>'medium'\<close>, \<open>'high'\<close> and \<open>'critical'\<close>; capitalised, since four of the names are
  severities already.\<close>

datatype RiskLevel = Safe | Low | Medium | High | Critical

definition getRiskLevel :: "number \<Rightarrow> RiskLevel" where
  "getRiskLevel score =
     (if score < 20 then Safe
      else if score < 40 then Low
      else if score < 60 then Medium
      else if score < 80 then High
      else Critical)"

text \<open>\<open>String.prototype.toUpperCase\<close> on the ASCII letters, which is all the severity
  labels contain; every other byte is left as it is.\<close>

definition toUpperCase_char :: "char \<Rightarrow> char" where
  "toUpperCase_char c =
     (let n = of_char c :: nat in if 97 \<le> n \<and> n \<le> 122 then char_of (n - 32) else c)"

definition toUpperCase :: "string \<Rightarrow> string" where
  "toUpperCase s = map toUpperCase_char s"

text \<open>The \<open>severityEmoji\<close> table of \<open>formatSignal\<close>, byte for byte as the source file
  has it.\<close>

fun severityEmoji :: "SignalSeverity \<Rightarrow> string" where
  "severityEmoji info =
     [CHR 0xE2, CHR 0x80, CHR 0x9A, CHR 0xC3, CHR 0x91, CHR 0xCF, CHR 0x80,
      CHR 0xC3, CHR 0x94, CHR 0xE2, CHR 0x88, CHR 0x8F, CHR 0xC3, CHR 0xA8]"
| "severityEmoji low =
     [CHR 0xEF, CHR 0xA3, CHR 0xBF, CHR 0xC3, CHR 0xBC, CHR 0xC3, CHR 0xBC, CHR 0xC2, CHR 0xA2]"
| "severityEmoji medium =
     [CHR 0xEF, CHR 0xA3, CHR 0xBF, CHR 0xC3, CHR 0xBC, CHR 0xC3, CHR 0xBC, CHR 0xC2, CHR 0xB0]"
| "severityEmoji high =
     [CHR 0xEF, CHR 0xA3, CHR 0xBF, CHR 0xC3, CHR 0xBC, CHR 0xC3, CHR 0xBC,
      CHR 0xE2, CHR 0x80, CHR 0xA0]"
| "severityEmoji critical =
     [CHR 0xEF, CHR 0xA3, CHR 0xBF, CHR 0xC3, CHR 0xBC, CHR 0xC3, CHR 0xAE, CHR 0xC2, CHR 0xA5]"

definition formatSignal :: "'m Signal \<Rightarrow> string" where
  "formatSignal signal =
     severityEmoji (severity signal) @ '' ['' @ toUpperCase (severity_string (severity signal))
       @ ''] '' @ title signal @ '': '' @ summary signal"

subsection \<open>Sorting\<close>

text \<open>
  \<open>Array.prototype.sort\<close> with a comparator is a stable sort (ECMAScript 2019): \<open>a\<close>
  comes before \<open>b\<close> when the comparator is negative on \<open>(a, b)\<close>, after it when positive,
  and two elements that compare as \<open>0\<close> stay in their order. For a consistent comparator
  that fixes the result, computed here by insertion from the right.
\<close>

fun sort_insert :: "('a \<Rightarrow> 'a \<Rightarrow> number) \<Rightarrow> 'a \<Rightarrow> 'a list \<Rightarrow> 'a list" where
  "sort_insert cmp x [] = [x]"
| "sort_insert cmp x (y # ys) =
     (if cmp x y \<le> 0 then x # y # ys else y # sort_insert cmp x ys)"

fun Array_sort :: "('a \<Rightarrow> 'a \<Rightarrow> number) \<Rightarrow> 'a list \<Rightarrow> 'a list" where
  "Array_sort cmp [] = []"
| "Array_sort cmp (x # xs) = sort_insert cmp x (Array_sort cmp xs)"

text \<open>
  \<open>sort\<close> works in place, and \<open>sortBySeverity\<close> applies it to the copy \<open>[...signals]\<close>.
  To say what happens to the caller's array, arrays live in a store: a list of arrays,
  an array's address being its index. A read of an address that is not allocated is
  \<open>None\<close>.
\<close>

type_synonym 'a store = "'a list list"

definition store_get :: "'a store \<Rightarrow> nat \<Rightarrow> 'a list option" where
  "store_get h a = (if a < length h then Some (h ! a) else None)"

text \<open>\<open>[...arr]\<close>: a new array with the elements of \<open>arr\<close>, at a fresh address.\<close>

definition spread :: "'a store \<Rightarrow> nat \<Rightarrow> (nat \<times> 'a store) option" where
  "spread h a =
     (case store_get h a of None \<Rightarrow> None | Some xs \<Rightarrow> Some (length h, h @ [xs]))"

text \<open>\<open>arr.sort(cmp)\<close>: overwrites \<open>arr\<close> with its sorted elements and returns \<open>arr\<close>.\<close>

definition sort_in_place ::
    "('a \<Rightarrow> 'a \<Rightarrow> number) \<Rightarrow> 'a store \<Rightarrow> nat \<Rightarrow> (nat \<times> 'a store) option" where
  "sort_in_place cmp h a =
     (case store_get h a of None \<Rightarrow> None | Some xs \<Rightarrow> Some (a, h[a := Array_sort cmp xs]))"

definition severity_cmp :: "'m Signal \<Rightarrow> 'm Signal \<Rightarrow> number" where
  "severity_cmp a b = js_sub (SEVERITY_WEIGHTS (severity b)) (SEVERITY_WEIGHTS (severity a))"

definition sortBySeverity :: "'m Signal store \<Rightarrow> nat \<Rightarrow> (nat \<times> 'm Signal store) option" where
  "sortBySeverity h signals =
     (case spread h signals of
        None \<Rightarrow> None
      | Some (copy, h') \<Rightarrow> sort_in_place severity_cmp h' copy)"

subsection \<open>The score on untyped input\<close>

text \<open>
  The types of \<open>types.ts\<close> are erased at run time, and \<open>calculateRiskScore\<close> then runs on
  whatever the array holds. For the inputs outside the enumerations the function is
  written out a second time, with the property reads of JavaScript: the \<open>type\<close> and the
  \<open>severity\<close> of a signal are arbitrary strings (a property key that is not a string is
  converted to one), and a read of a table may find an inherited member.
\<close>























subsection \<open>Sample signals\<close>

text \<open>A signal of a given type and severity, for the concrete instances below.\<close>

definition sample :: "SignalType \<Rightarrow> SignalSeverity \<Rightarrow> unit Signal" where
  "sample t s =
     \<lparr>id' = ''sig-1'', type' = t, severity = s, title = ''Title'', summary = ''Summary'',
      details = None, timestamp = 1700000000000, metadata = None\<rparr>"

text \<open>A store holding one array: a high, a medium and another high signal.\<close>

definition sample_store :: "unit Signal store" where
  "sample_store = [[sample honeypot high, sample honeypot medium, sample whale_movement high]]"

section \<open>Properties of the rounding\<close>

lemma powi_nat: "0 \<le> k \<Longrightarrow> (2::rat) powi k = 2 ^ nat k"
  by (simp add: power_int_def)

lemma powi_neg_nat: "0 \<le> k \<Longrightarrow> (2::rat) powi (- k) = 1 / 2 ^ nat k"
  by (simp add: power_int_minus powi_nat divide_inverse)

lemma binade_ge1:
  assumes "1 \<le> x"
  shows "2 powi binade x \<le> x \<and> x < 2 powi (binade x + 1)"
proof -
  define m where "m = \<lfloor>x\<rfloor>"
  have m: "0 < m" using assms by (simp add: m_def)
  have b: "2 ^ nat (bitlen m - 1) \<le> m" "m < 2 ^ nat (bitlen m)"
    using bitlen_bounds[OF m] by auto
  have k: "1 \<le> bitlen m" using m by (simp add: bitlen_alt_def)
  have e: "binade x = bitlen m - 1" using assms by (simp add: binade_def m_def)
  have "(2::rat) powi binade x = of_int (2 ^ nat (bitlen m - 1))"
    using k by (simp add: e powi_nat)
  also have "\<dots> \<le> of_int m" using b(1) by (simp only: of_int_le_iff)
  also have "\<dots> \<le> x" by (simp add: m_def)
  finally have lo: "2 powi binade x \<le> x" .
  have "x < of_int (m + 1)" unfolding m_def by linarith
  also have "\<dots> \<le> of_int (2 ^ nat (bitlen m))"
  proof -
    have "m + 1 \<le> 2 ^ nat (bitlen m)" using b(2) by simp
    thus ?thesis by (simp only: of_int_le_iff)
  qed
  also have "\<dots> = 2 powi (binade x + 1)" using k by (simp add: e powi_nat)
  finally show ?thesis using lo by simp
qed

lemma binade_lt1:
  assumes "0 < x" "x < 1"
  shows "2 powi binade x \<le> x \<and> x < 2 powi (binade x + 1)"
proof -
  define c where "c = \<lceil>1 / x\<rceil> - 1"
  have inv: "1 < 1 / x" using assms by simp
  have c: "0 < c" using inv unfolding c_def by (simp add: less_ceiling_iff)
  have b: "2 ^ nat (bitlen c - 1) \<le> c" "c < 2 ^ nat (bitlen c)"
    using bitlen_bounds[OF c] by auto
  have k: "1 \<le> bitlen c" using c by (simp add: bitlen_alt_def)
  have e: "binade x = - bitlen c" using assms by (simp add: binade_def c_def)
  have c_lt: "of_int c < 1 / x" unfolding c_def by linarith
  have c_ge: "1 / x \<le> of_int (c + 1)" unfolding c_def by simp
  have "1 / x \<le> of_int (c + 1)" by (rule c_ge)
  also have "\<dots> \<le> of_int (2 ^ nat (bitlen c))"
  proof -
    have "c + 1 \<le> 2 ^ nat (bitlen c)" using b(2) by simp
    thus ?thesis by (simp only: of_int_le_iff)
  qed
  finally have "1 / x \<le> 2 ^ nat (bitlen c)" by simp
  hence "1 / 2 ^ nat (bitlen c) \<le> x" using assms(1)
    by (simp add: field_simps)
  moreover have "(2::rat) powi binade x = 1 / 2 ^ nat (bitlen c)"
    using k by (simp add: e powi_neg_nat)
  ultimately have lo: "2 powi binade x \<le> x" by simp
  have "(of_int (2 ^ nat (bitlen c - 1)) :: rat) \<le> of_int c" using b(1) by (simp only: of_int_le_iff)
  also have "\<dots> < 1 / x" by (rule c_lt)
  finally have "2 ^ nat (bitlen c - 1) < 1 / x" by simp
  hence "x < 1 / 2 ^ nat (bitlen c - 1)" using assms(1)
    by (simp add: field_simps)
  moreover have "(2::rat) powi (binade x + 1) = 1 / 2 ^ nat (bitlen c - 1)"
  proof -
    have "binade x + 1 = - (bitlen c - 1)" by (simp add: e)
    thus ?thesis using k by (simp only: powi_neg_nat)
  qed
  ultimately show ?thesis using lo by simp
qed

lemma binade_bounds:
  assumes "0 < x"
  shows "2 powi binade x \<le> x" and "x < 2 powi (binade x + 1)"
  using binade_ge1[of x] binade_lt1[of x] assms by (cases "1 \<le> x"; simp)+


lemma rhe_upper: "of_int (round_half_even y) \<le> y + 1 / 2"
  unfolding round_half_even_def Let_def by (auto; linarith)

lemma rhe_lower: "y - 1 / 2 \<le> of_int (round_half_even y)"
  unfolding round_half_even_def Let_def by (auto; linarith)

lemma rhe_of_int: "round_half_even (of_int n) = n"
  by (simp add: round_half_even_def)

lemma rhe_mono:
  assumes "x \<le> y"
  shows "round_half_even x \<le> round_half_even y"
proof (cases "x = y")
  case True
  then show ?thesis by simp
next
  case False
  hence "x < y" using assms by simp
  have "(of_int (round_half_even x) :: rat) \<le> x + 1 / 2" by (rule rhe_upper)
  also have "\<dots> < y + 1 / 2" using \<open>x < y\<close> by simp
  also have "\<dots> \<le> of_int (round_half_even y) + 1" using rhe_lower[of y] by simp
  finally have "(of_int (round_half_even x) :: rat) < of_int (round_half_even y + 1)" by simp
  hence "round_half_even x < round_half_even y + 1" by (simp only: of_int_less_iff)
  thus ?thesis by simp
qed

lemma ulp_pos: "0 < (2::rat) powi k"
  by simp

lemma scaled_range:
  assumes "0 < x"
  shows "2 ^ 52 \<le> x / 2 powi (binade x - 52)" and "x / 2 powi (binade x - 52) < 2 ^ 53"
proof -
  have p: "(2::rat) powi (binade x - 52) = 2 powi binade x / 2 ^ 52"
    by (simp add: power_int_diff)
  have q: "(2::rat) powi (binade x + 1) = 2 powi binade x * 2"
    by (simp add: power_int_add)
  have pos: "0 < (2::rat) powi binade x" by simp
  show "2 ^ 52 \<le> x / 2 powi (binade x - 52)"
    using binade_bounds(1)[OF assms] pos unfolding p by (simp add: field_simps)
  show "x / 2 powi (binade x - 52) < 2 ^ 53"
    using binade_bounds(2)[OF assms] pos unfolding p q by (simp add: field_simps)
qed

lemma fl_pos_def:
  assumes "0 < x"
  shows "fl x = 2 powi (binade x - 52) * of_int (round_half_even (x / 2 powi (binade x - 52)))"
  using assms by (simp add: fl_def Let_def)

lemma rhe_scaled_range:
  assumes "0 < x"
  shows "2 ^ 52 \<le> round_half_even (x / 2 powi (binade x - 52))"
    and "round_half_even (x / 2 powi (binade x - 52)) \<le> 2 ^ 53"
proof -
  have "round_half_even (of_int (2 ^ 52)) \<le> round_half_even (x / 2 powi (binade x - 52))"
    using scaled_range(1)[OF assms] by (intro rhe_mono) simp
  thus "2 ^ 52 \<le> round_half_even (x / 2 powi (binade x - 52))"
    by (simp only: rhe_of_int)
  have "round_half_even (x / 2 powi (binade x - 52)) \<le> round_half_even (of_int (2 ^ 53))"
    using scaled_range(2)[OF assms] by (intro rhe_mono) simp
  thus "round_half_even (x / 2 powi (binade x - 52)) \<le> 2 ^ 53"
    by (simp only: rhe_of_int)
qed

lemma fl_pos_range:
  assumes "0 < x"
  shows "2 powi binade x \<le> fl x" and "fl x \<le> 2 powi (binade x + 1)"
proof -
  let ?p = "(2::rat) powi (binade x - 52)"
  let ?n = "round_half_even (x / ?p)"
  have p: "?p * 2 ^ 52 = 2 powi binade x" by (simp add: power_int_diff)
  have q: "?p * 2 ^ 53 = 2 powi (binade x + 1)" by (simp add: power_int_diff power_int_add)
  have "(of_int (2 ^ 52) :: rat) \<le> of_int ?n"
    using rhe_scaled_range(1)[OF assms] by (simp only: of_int_le_iff)
  hence "?p * 2 ^ 52 \<le> ?p * of_int ?n" by (intro mult_left_mono) simp_all
  thus "2 powi binade x \<le> fl x" unfolding fl_pos_def[OF assms] p .
  have "(of_int ?n :: rat) \<le> of_int (2 ^ 53)"
    using rhe_scaled_range(2)[OF assms] by (simp only: of_int_le_iff)
  hence "?p * of_int ?n \<le> ?p * 2 ^ 53" by (intro mult_left_mono) simp_all
  thus "fl x \<le> 2 powi (binade x + 1)" unfolding fl_pos_def[OF assms] q .
qed

lemma fl_pos: "0 < x \<Longrightarrow> 0 < fl x"
  using fl_pos_range(1)[of x] ulp_pos[of "binade x"] by linarith

lemma fl_nonneg: "0 \<le> x \<Longrightarrow> 0 \<le> fl x"
  using fl_pos[of x] by (cases "x = 0") (simp_all add: fl_def)

lemma fl_nonpos:
  assumes "x \<le> 0"
  shows "fl x \<le> 0"
proof (cases "x = 0")
  case True
  then show ?thesis by (simp add: fl_def)
next
  case False
  let ?p = "(2::rat) powi (binade \<bar>x\<bar> - 52)"
  have "x / ?p \<le> of_int 0" using assms by (simp add: divide_nonpos_pos)
  hence "round_half_even (x / ?p) \<le> round_half_even (of_int 0)" by (rule rhe_mono)
  hence "round_half_even (x / ?p) \<le> 0" by (simp only: rhe_of_int)
  hence "?p * of_int (round_half_even (x / ?p)) \<le> 0"
    by (simp add: mult_le_0_iff)
  thus ?thesis using False by (simp add: fl_def Let_def)
qed

lemma fl_le_0_iff: "fl x \<le> 0 \<longleftrightarrow> x \<le> 0"
  using fl_pos[of x] fl_nonpos[of x] by (cases "x \<le> 0") auto

lemma binade_mono:
  assumes "0 < x" "x \<le> y"
  shows "binade x \<le> binade y"
proof (rule ccontr)
  assume "\<not> binade x \<le> binade y"
  hence "binade y + 1 \<le> binade x" by simp
  hence "(2::rat) powi (binade y + 1) \<le> 2 powi binade x"
    by (intro power_int_increasing) simp_all
  moreover have "y < 2 powi (binade y + 1)" using assms by (intro binade_bounds) simp
  moreover have "2 powi binade x \<le> x" using assms by (intro binade_bounds)
  ultimately show False using assms by linarith
qed

lemma fl_mono_pos:
  assumes "0 < x" "x \<le> y"
  shows "fl x \<le> fl y"
proof (cases "binade x = binade y")
  case True
  let ?p = "(2::rat) powi (binade y - 52)"
  have y: "0 < y" using assms by simp
  have "x / ?p \<le> y / ?p" using assms by (simp add: divide_right_mono)
  hence "round_half_even (x / ?p) \<le> round_half_even (y / ?p)" by (rule rhe_mono)
  hence "(of_int (round_half_even (x / ?p)) :: rat) \<le> of_int (round_half_even (y / ?p))"
    by (simp only: of_int_le_iff)
  hence "?p * of_int (round_half_even (x / ?p)) \<le> ?p * of_int (round_half_even (y / ?p))"
    by (intro mult_left_mono) simp_all
  thus ?thesis unfolding fl_pos_def[OF assms(1)] fl_pos_def[OF y] True .
next
  case False
  have y: "0 < y" using assms by simp
  have "binade x + 1 \<le> binade y" using False binade_mono[OF assms] by simp
  hence "(2::rat) powi (binade x + 1) \<le> 2 powi binade y"
    by (intro power_int_increasing) simp_all
  thus ?thesis using fl_pos_range(2)[OF assms(1)] fl_pos_range(1)[OF y] by linarith
qed

lemma fl_mono:
  assumes "0 \<le> x" "x \<le> y"
  shows "fl x \<le> fl y"
proof (cases "x = 0")
  case True
  then show ?thesis using fl_nonneg[of y] assms by (simp add: fl_def)
next
  case False
  then show ?thesis using fl_mono_pos[of x y] assms by simp
qed

lemma fl_lower:
  assumes "0 \<le> x"
  shows "x * (1 - 1 / 2 ^ 53) \<le> fl x"
proof (cases "x = 0")
  case True
  then show ?thesis by (simp add: fl_def)
next
  case False
  hence x: "0 < x" using assms by simp
  let ?p = "(2::rat) powi (binade x - 52)"
  have p: "?p = 2 powi binade x / 2 ^ 52" by (simp add: power_int_diff)
  have "?p / 2 \<le> x / 2 ^ 53" using binade_bounds(1)[OF x] unfolding p by simp
  moreover have "x / ?p - 1 / 2 \<le> of_int (round_half_even (x / ?p))" by (rule rhe_lower)
  hence "?p * (x / ?p - 1 / 2) \<le> ?p * of_int (round_half_even (x / ?p))"
    by (intro mult_left_mono) simp_all
  hence "x - ?p / 2 \<le> fl x" unfolding fl_pos_def[OF x] by (simp add: right_diff_distrib)
  ultimately show ?thesis by (simp add: right_diff_distrib)
qed

text \<open>The rounded value is within half a unit in the last place of the exact one.\<close>

lemma fl_error:
  assumes "0 < x"
  shows "\<bar>fl x - x\<bar> \<le> 2 powi (binade x - 52) / 2"
proof -
  let ?p = "(2::rat) powi (binade x - 52)"
  let ?n = "of_int (round_half_even (x / ?p)) :: rat"
  have "x / ?p - 1 / 2 \<le> ?n" "?n \<le> x / ?p + 1 / 2" by (rule rhe_lower, rule rhe_upper)
  hence "\<bar>?n - x / ?p\<bar> \<le> 1 / 2" by linarith
  hence "?p * \<bar>?n - x / ?p\<bar> \<le> ?p * (1 / 2)" by (intro mult_left_mono) simp_all
  moreover have "\<bar>?p * ?n - x\<bar> = \<bar>?p * (?n - x / ?p)\<bar>" by (simp add: right_diff_distrib)
  hence "\<bar>?p * ?n - x\<bar> = ?p * \<bar>?n - x / ?p\<bar>" by (simp add: abs_mult)
  ultimately show ?thesis unfolding fl_pos_def[OF assms] by simp
qed

text \<open>Two familiar binary64 facts: the value of the literal \<open>0.1\<close>, and that \<open>0.1 + 0.2\<close>
  is not the literal \<open>0.3\<close> but the next value above it.\<close>

lemma fl_tenth: "fl (1 / 10) = 3602879701896397 / 36028797018963968"
  by code_simp

lemma js_add_tenths:
  "js_add (fl (1 / 10)) (fl (2 / 10)) = 5404319552844596 / 18014398509481984 \<and>
   fl (3 / 10) = 5404319552844595 / 18014398509481984"
  by code_simp

section \<open>The risk score\<close>

lemma score_step_signalScore:
  "score_step s st = (js_add (fst st) (signalScore s), Math_max (snd st) (signalScore s))"
  by (simp add: score_step_def signalScore_def Let_def)

lemma calculateRiskScore_blend:
  "signals \<noteq> [] \<Longrightarrow>
     calculateRiskScore signals =
       blend (js_div (fst (score_loop signals (0, 0))) (of_nat (length signals)))
             (snd (score_loop signals (0, 0)))"
  by (simp add: calculateRiskScore_def blend_def Let_def)

lemma calculateRiskScore_Nil: "calculateRiskScore [] = 0"
  by (simp add: calculateRiskScore_def)

lemma score_loop_append:
  "score_loop (xs @ ys) st = score_loop ys (score_loop xs st)"
  by (induction xs arbitrary: st) simp_all

lemma fl_3: "fl (30 / 10) = 3"
  by code_simp

lemma fl_15: "fl 15 = 15"
  by code_simp

lemma TYPE_RISK_FACTORS_pos: "0 < TYPE_RISK_FACTORS t"
  by (cases t) (simp_all add: fl_pos)

lemma TYPE_RISK_FACTORS_le_3: "TYPE_RISK_FACTORS t \<le> 3"
proof -
  have "fl q \<le> 3" if "0 \<le> q" "q \<le> 30 / 10" for q
    using fl_mono[OF that] by (simp only: fl_3)
  thus ?thesis by (cases t) simp_all
qed

lemma severity_weight_bounds:
  "1 \<le> js_or (SEVERITY_WEIGHTS v) 1 \<and> js_or (SEVERITY_WEIGHTS v) 1 \<le> 5"
  by (cases v) (simp_all add: js_or_def)

lemma signalScore_bounds: "0 \<le> signalScore s \<and> signalScore s \<le> 15"
proof -
  let ?w = "js_or (SEVERITY_WEIGHTS (severity s)) 1"
  let ?f = "js_or (TYPE_RISK_FACTORS (type' s)) 1"
  have f: "0 < ?f" "?f \<le> 3"
    using TYPE_RISK_FACTORS_pos[of "type' s"] TYPE_RISK_FACTORS_le_3[of "type' s"]
    by (simp_all add: js_or_def)
  have w: "1 \<le> ?w" "?w \<le> 5" using severity_weight_bounds[of "severity s"] by simp_all
  have nonneg: "0 \<le> ?w * ?f" using f w by simp
  have "?w * ?f \<le> 5 * 3" using f w by (intro mult_mono) simp_all
  hence "?w * ?f \<le> 15" by simp
  hence "fl (?w * ?f) \<le> fl 15" using nonneg by (intro fl_mono)
  thus ?thesis using fl_nonneg[OF nonneg] by (simp add: signalScore_def js_mul_def fl_15)
qed

lemma score_loop_bounds:
  assumes "0 \<le> fst st" "0 \<le> snd st" "snd st \<le> 15"
  shows "0 \<le> fst (score_loop xs st) \<and> 0 \<le> snd (score_loop xs st) \<and> snd (score_loop xs st) \<le> 15"
  using assms
proof (induction xs arbitrary: st)
  case Nil
  then show ?case by simp
next
  case (Cons s xs)
  have "0 \<le> fst (score_step s st)"
    using Cons.prems signalScore_bounds[of s]
    by (simp add: score_step_signalScore js_add_def fl_nonneg)
  moreover have "0 \<le> snd (score_step s st)" "snd (score_step s st) \<le> 15"
    using Cons.prems signalScore_bounds[of s]
    by (simp_all add: score_step_signalScore Math_max_def)
  ultimately show ?case using Cons.IH[of "score_step s st"] by simp
qed

lemma Math_round_mono: "x \<le> y \<Longrightarrow> Math_round x \<le> Math_round y"
  by (simp add: Math_round_def floor_mono)

lemma Math_round_nonneg: "0 \<le> x \<Longrightarrow> 0 \<le> Math_round x"
  by (simp add: Math_round_def)

lemma blend_mono:
  assumes "0 \<le> a" "a \<le> a'" "0 \<le> m" "m \<le> m'"
  shows "blend a m \<le> blend a' m'"
proof -
  let ?c6 = "fl (6 / 10)" and ?c4 = "fl (4 / 10)"
  have c: "0 \<le> ?c6" "0 \<le> ?c4" by (simp_all add: fl_nonneg)
  have "fl (a * ?c6) \<le> fl (a' * ?c6)"
    using assms c by (intro fl_mono mult_right_mono mult_nonneg_nonneg)
  moreover have "fl (m * ?c4) \<le> fl (m' * ?c4)"
    using assms c by (intro fl_mono mult_right_mono mult_nonneg_nonneg)
  moreover have "0 \<le> fl (a * ?c6)" "0 \<le> fl (m * ?c4)"
    using assms c by (simp_all add: fl_nonneg)
  ultimately have s: "0 \<le> fl (a * ?c6) + fl (m * ?c4)"
    "fl (a * ?c6) + fl (m * ?c4) \<le> fl (a' * ?c6) + fl (m' * ?c4)"
    by simp_all
  have t: "fl (fl (a * ?c6) + fl (m * ?c4)) \<le> fl (fl (a' * ?c6) + fl (m' * ?c4))"
    using s by (rule fl_mono)
  have "0 \<le> fl (fl (a * ?c6) + fl (m * ?c4)) * 10" using s(1) by (simp add: fl_nonneg)
  moreover have "fl (fl (a * ?c6) + fl (m * ?c4)) * 10 \<le> fl (fl (a' * ?c6) + fl (m' * ?c4)) * 10"
    using t by simp
  ultimately have "fl (fl (fl (a * ?c6) + fl (m * ?c4)) * 10)
      \<le> fl (fl (fl (a' * ?c6) + fl (m' * ?c4)) * 10)"
    by (rule fl_mono)
  thus ?thesis
    by (simp add: blend_def js_mul_def js_add_def Math_min_def min_le_iff_disj Math_round_mono)
qed

lemma blend_bounds:
  assumes "0 \<le> a" "0 \<le> m"
  shows "0 \<le> blend a m \<and> blend a m \<le> 100"
proof -
  have "0 \<le> fl (a * fl (6 / 10)) + fl (m * fl (4 / 10))"
    using assms by (simp add: fl_nonneg)
  hence "0 \<le> fl (fl (fl (a * fl (6 / 10)) + fl (m * fl (4 / 10))) * 10)"
    by (simp add: fl_nonneg)
  hence "0 \<le> Math_round (fl (fl (fl (a * fl (6 / 10)) + fl (m * fl (4 / 10))) * 10))"
    by (rule Math_round_nonneg)
  thus ?thesis by (simp add: blend_def js_mul_def js_add_def Math_min_def)
qed

lemma calculateRiskScore_bounds:
  "0 \<le> calculateRiskScore signals \<and> calculateRiskScore signals \<le> 100"
proof (cases "signals = []")
  case True
  then show ?thesis by (simp add: calculateRiskScore_def)
next
  case False
  have b: "0 \<le> fst (score_loop signals (0, 0))" "0 \<le> snd (score_loop signals (0, 0))"
    using score_loop_bounds[of "(0, 0)" signals] by simp_all
  have a: "0 \<le> js_div (fst (score_loop signals (0, 0))) (of_nat (length signals))"
    using b(1) by (simp add: js_div_def fl_nonneg)
  show ?thesis
    using blend_bounds[OF a b(2)] False
    by (simp add: calculateRiskScore_blend calculateRiskScore_Nil)
qed

subsection \<open>Untyped input\<close>



















subsection \<open>Concrete scores\<close>

lemma score_loop_cong:
  assumes "map (\<lambda>s. (type' s, severity s)) xs = map (\<lambda>s. (type' s, severity s)) ys"
  shows "score_loop xs st = score_loop ys st"
  using assms
proof (induction xs arbitrary: ys st)
  case Nil
  then show ?case by simp
next
  case (Cons x xs)
  then obtain y ys' where ys: "ys = y # ys'" by (cases ys) auto
  have "score_step x st = score_step y st"
    using Cons.prems ys by (simp add: score_step_def)
  moreover have "score_loop xs st' = score_loop ys' st'" for st'
    using Cons.prems ys by (intro Cons.IH) simp
  ultimately show ?case by (simp add: ys)
qed

lemma calculateRiskScore_cong:
  assumes "map (\<lambda>s. (type' s, severity s)) xs = map (\<lambda>s. (type' s, severity s)) ys"
  shows "calculateRiskScore xs = calculateRiskScore ys"
proof -
  have "length xs = length ys" using assms by (rule map_eq_imp_length_eq)
  thus ?thesis by (simp add: calculateRiskScore_def score_loop_cong[OF assms])
qed

lemma score_honeypot_info: "calculateRiskScore [sample honeypot info] = 30"
  by code_simp

text \<open>
  C1 states that \<open>calculateRiskScore\<close> uses the severity weight 0 for severity info, so
  that a non-empty collection of info signals scores 0, and in particular the collection
  of one signal of type honeypot and severity info. The table \<open>SEVERITY_WEIGHTS\<close> does
  hold 0 for info, but the loop reads it as \<open>SEVERITY_WEIGHTS[signal.severity] || 1\<close>,
  and 0 is falsy: the weight used is 1. The honeypot signal of severity info scores
  \<open>1 * 3.0 = 3\<close>, and the collection scores 30.
\<close>

theorem calculateRiskScore_honeypot_info:
  "calculateRiskScore [s\<lparr>type' := honeypot, severity := info\<rparr>] = 30"
proof -
  have "calculateRiskScore [s\<lparr>type' := honeypot, severity := info\<rparr>] =
        calculateRiskScore [sample honeypot info]"
    by (rule calculateRiskScore_cong) (simp add: sample_def)
  thus ?thesis by (simp only: score_honeypot_info)
qed

lemma score_end_to_end:
  "calculateRiskScore [sample contract_risk high, sample social_sentiment low] = 44"
  by code_simp

lemma loop_end_to_end:
  "score_loop [sample contract_risk high, sample social_sentiment low] (0, 0) = (fl (68 / 10), 6)"
  by code_simp

lemma signalScore_end_to_end:
  "signalScore (sample contract_risk high) = 6"
  "signalScore (sample social_sentiment low) = fl (8 / 10)"
  by code_simp+

lemma blend_end_to_end:
  "js_div (fl (68 / 10)) 2 = fl (34 / 10)"
  "js_add (js_mul (fl (34 / 10)) (fl (6 / 10))) (js_mul 6 (fl (4 / 10))) = fl (444 / 100)"
  "Math_round (js_mul (fl (444 / 100)) 10) = 44"
  by code_simp+

text \<open>
  C2: for the collection of a contract_risk signal of severity high and a
  social_sentiment signal of severity low, \<open>calculateRiskScore\<close> returns exactly 44,
  \<open>getRiskLevel 44\<close> is medium, and \<open>isHighRisk\<close> of the collection is false. On the way
  the per-signal scores are 6 and 0.8, the maximum is 6, the total 6.8, the average 3.4
  and the combined score 4.44, each the binary64 value of that decimal; ten times the
  combined score rounds to 44.
\<close>

theorem end_to_end_example:
  "signalScore (a\<lparr>type' := contract_risk, severity := high\<rparr>) = 6 \<and>
   signalScore (b\<lparr>type' := social_sentiment, severity := low\<rparr>) = fl (8 / 10) \<and>
   score_loop
     [a\<lparr>type' := contract_risk, severity := high\<rparr>,
      b\<lparr>type' := social_sentiment, severity := low\<rparr>] (0, 0) = (fl (68 / 10), 6) \<and>
   js_div (fl (68 / 10)) 2 = fl (34 / 10) \<and>
   js_add (js_mul (fl (34 / 10)) (fl (6 / 10))) (js_mul 6 (fl (4 / 10))) = fl (444 / 100) \<and>
   Math_round (js_mul (fl (444 / 100)) 10) = 44 \<and>
   calculateRiskScore
     [a\<lparr>type' := contract_risk, severity := high\<rparr>,
      b\<lparr>type' := social_sentiment, severity := low\<rparr>] = 44 \<and>
   getRiskLevel 44 = Medium \<and>
   \<not> isHighRisk
     [a\<lparr>type' := contract_risk, severity := high\<rparr>,
      b\<lparr>type' := social_sentiment, severity := low\<rparr>]"
proof -
  let ?A = "a\<lparr>type' := contract_risk, severity := high\<rparr>"
  let ?B = "b\<lparr>type' := social_sentiment, severity := low\<rparr>"
  have same: "map (\<lambda>s. (type' s, severity s)) [?A, ?B] =
      map (\<lambda>s. (type' s, severity s)) [sample contract_risk high, sample social_sentiment low]"
    by (simp add: sample_def)
  have "signalScore ?A = signalScore (sample contract_risk high)"
    by (simp add: signalScore_def sample_def)
  hence sA: "signalScore ?A = 6" by (simp only: signalScore_end_to_end)
  have "signalScore ?B = signalScore (sample social_sentiment low)"
    by (simp add: signalScore_def sample_def)
  hence sB: "signalScore ?B = fl (8 / 10)" by (simp only: signalScore_end_to_end)
  have "score_loop [?A, ?B] (0, 0) =
      score_loop [sample contract_risk high, sample social_sentiment low] (0, 0)"
    using same by (rule score_loop_cong)
  hence loop: "score_loop [?A, ?B] (0, 0) = (fl (68 / 10), 6)" by (simp only: loop_end_to_end)
  have "calculateRiskScore [?A, ?B] =
      calculateRiskScore [sample contract_risk high, sample social_sentiment low]"
    using same by (rule calculateRiskScore_cong)
  hence score: "calculateRiskScore [?A, ?B] = 44" by (simp only: score_end_to_end)
  have level: "getRiskLevel 44 = Medium" by (simp add: getRiskLevel_def)
  have risk: "\<not> isHighRisk [?A, ?B]"
    unfolding isHighRisk_def Let_def score by simp
  show ?thesis
    by (intro conjI sA sB loop blend_end_to_end score level risk)
qed

subsection \<open>Appending a critical rugpull signal\<close>

lemma fl_3': "fl 3 = 3"
  by code_simp

lemma signalScore_rugpull_critical:
  assumes "severity r = critical" "type' r = rugpull_risk"
  shows "signalScore r = 15"
  using assms by (simp add: signalScore_def js_or_def js_mul_def fl_3' fl_15)

lemma blend_saturated: "blend (fl (69 / 10)) 15 = 100"
  by code_simp

lemma append_avg_small:
  fixes T N F :: rat
  assumes "0 \<le> T" "1 \<le> N" "N \<le> 2 ^ 32" "T / N \<le> 7" "(T + 15) * (1 - 1 / 2 ^ 53) \<le> F"
  shows "T / N \<le> F / (N + 1)"
proof -
  define q where "q = T / N"
  have T: "T = q * N" using assms(2) by (simp add: q_def)
  have "q * N \<le> 7 * N" using assms(2,4) by (intro mult_right_mono) (simp_all add: q_def)
  hence T7: "T \<le> 7 * N" by (simp add: T)
  have "T + q \<le> F" using assms(3,5) T7 \<open>T / N \<le> 7\<close> unfolding q_def[symmetric] by simp
  hence "q * (N + 1) \<le> F" by (simp add: T algebra_simps)
  thus ?thesis using assms(2) unfolding q_def[symmetric] by (simp add: pos_le_divide_eq)
qed

lemma append_avg_large:
  fixes T N F :: rat
  assumes "1 \<le> N" "7 < T / N" "(T + 15) * (1 - 1 / 2 ^ 53) \<le> F"
  shows "69 / 10 \<le> F / (N + 1)"
proof -
  have "7 * N < T" using assms(1,2) by (simp add: pos_less_divide_eq)
  hence "69 / 10 * (N + 1) \<le> F" using assms(1,3) by simp
  thus ?thesis using assms(1) by (simp add: pos_le_divide_eq)
qed

lemma calculateRiskScore_append_max:
  assumes len: "length xs < 2 ^ 32" and r: "severity r = critical" "type' r = rugpull_risk"
  shows "calculateRiskScore xs \<le> calculateRiskScore (xs @ [r])"
proof (cases "xs = []")
  case True
  then show ?thesis using calculateRiskScore_bounds[of "[r]"] by (simp add: calculateRiskScore_Nil)
next
  case False
  define T where "T = fst (score_loop xs (0, 0))"
  define M where "M = snd (score_loop xs (0, 0))"
  define N where "N = (of_nat (length xs) :: rat)"
  define F where "F = fl (T + 15)"
  have bounds: "0 \<le> T" "0 \<le> M" "M \<le> 15"
    using score_loop_bounds[of "(0, 0)" xs] by (simp_all add: T_def M_def)
  have N: "1 \<le> N" "N \<le> 2 ^ 32"
  proof -
    have "1 \<le> length xs" using False by (cases xs) simp_all
    thus "1 \<le> N" unfolding N_def by (metis of_nat_1 of_nat_le_iff)
    have "length xs \<le> 2 ^ 32" using len by simp
    hence "(of_nat (length xs) :: rat) \<le> of_nat (2 ^ 32)" by (simp only: of_nat_le_iff)
    thus "N \<le> 2 ^ 32" unfolding N_def by simp
  qed
  have old: "calculateRiskScore xs = blend (fl (T / N)) M"
    using False by (simp add: calculateRiskScore_blend T_def M_def N_def js_div_def)
  have step: "score_loop (xs @ [r]) (0, 0) = (F, 15)"
    using bounds(3)
    by (simp add: score_loop_append score_step_signalScore signalScore_rugpull_critical[OF r]
        T_def M_def F_def js_add_def Math_max_def)
  have new: "calculateRiskScore (xs @ [r]) = blend (fl (F / (N + 1))) 15"
    by (simp add: calculateRiskScore_blend step N_def js_div_def add.commute)
  have F: "(T + 15) * (1 - 1 / 2 ^ 53) \<le> F"
    unfolding F_def using bounds(1) by (intro fl_lower) simp
  have avg: "0 \<le> T / N" using bounds(1) N(1) by simp
  show ?thesis
  proof (cases "T / N \<le> 7")
    case True
    have "T / N \<le> F / (N + 1)"
      using bounds(1) N True F by (rule append_avg_small)
    hence "fl (T / N) \<le> fl (F / (N + 1))" using avg by (intro fl_mono)
    hence "blend (fl (T / N)) M \<le> blend (fl (F / (N + 1))) 15"
      using avg bounds by (intro blend_mono) (simp_all add: fl_nonneg)
    thus ?thesis by (simp only: old new)
  next
    case False
    hence "69 / 10 \<le> F / (N + 1)" using N(1) F by (intro append_avg_large) simp_all
    hence "fl (69 / 10) \<le> fl (F / (N + 1))" by (intro fl_mono) simp_all
    hence "blend (fl (69 / 10)) 15 \<le> blend (fl (F / (N + 1))) 15"
      by (intro blend_mono) (simp_all add: fl_nonneg)
    hence "100 \<le> calculateRiskScore (xs @ [r])" by (simp only: blend_saturated new)
    moreover have "calculateRiskScore xs \<le> 100" using calculateRiskScore_bounds[of xs] by simp
    ultimately show ?thesis by linarith
  qed
qed

text \<open>
  C6: for every signal collection \<open>xs\<close> and every signal \<open>r\<close> of severity critical and type
  rugpull_risk, the score of \<open>xs\<close> with \<open>r\<close> appended is at least the score of \<open>xs\<close>,
  and \<open>xs\<close> with \<open>r\<close> appended is high risk. (A collection is an array, and an array
  has fewer than \<open>2^32\<close> elements.)
\<close>

theorem append_rugpull_critical:
  assumes "length xs < 2 ^ 32" "severity r = critical" "type' r = rugpull_risk"
  shows "calculateRiskScore xs \<le> calculateRiskScore (xs @ [r]) \<and> isHighRisk (xs @ [r])"
  using calculateRiskScore_append_max[OF assms] assms(3) by (simp add: isHighRisk_def)

theorem append_rugpull_critical_witness:
  "length [sample contract_risk high, sample social_sentiment low] < 2 ^ 32 \<and>
   severity (sample rugpull_risk critical) = critical \<and>
   type' (sample rugpull_risk critical) = rugpull_risk \<and>
   calculateRiskScore [sample contract_risk high, sample social_sentiment low]
     \<le> calculateRiskScore
         ([sample contract_risk high, sample social_sentiment low] @ [sample rugpull_risk critical]) \<and>
   isHighRisk
     ([sample contract_risk high, sample social_sentiment low] @ [sample rugpull_risk critical])"
proof -
  have h1: "length [sample contract_risk high, sample social_sentiment low] < 2 ^ 32" by simp
  have h2: "severity (sample rugpull_risk critical) = critical" by (simp add: sample_def)
  have h3: "type' (sample rugpull_risk critical) = rugpull_risk" by (simp add: sample_def)
  show ?thesis using h1 h2 h3 append_rugpull_critical[OF h1 h2 h3] by blast
qed

section \<open>Risk levels\<close>

text \<open>
  C5: \<open>getRiskLevel\<close> classifies with left-inclusive bucket boundaries. At the boundary
  scores: 19 is safe, 20 and 39 are low, 40 and 59 are medium, 60 and 79 are high, 80 is
  critical. For every score: below 20 it is safe, from 20 and below 40 low, from 40 and
  below 60 medium, from 60 and below 80 high, and from 80 on critical.
\<close>

theorem getRiskLevel_buckets:
  "getRiskLevel 19 = Safe \<and> getRiskLevel 20 = Low \<and> getRiskLevel 39 = Low \<and>
   getRiskLevel 40 = Medium \<and> getRiskLevel 59 = Medium \<and> getRiskLevel 60 = High \<and>
   getRiskLevel 79 = High \<and> getRiskLevel 80 = Critical \<and>
   (score < 20 \<longrightarrow> getRiskLevel score = Safe) \<and>
   (20 \<le> score \<and> score < 40 \<longrightarrow> getRiskLevel score = Low) \<and>
   (40 \<le> score \<and> score < 60 \<longrightarrow> getRiskLevel score = Medium) \<and>
   (60 \<le> score \<and> score < 80 \<longrightarrow> getRiskLevel score = High) \<and>
   (80 \<le> score \<longrightarrow> getRiskLevel score = Critical)"
  by (simp add: getRiskLevel_def)

theorem getRiskLevel_buckets_witness:
  "(199 / 10 :: number) < 20 \<and> getRiskLevel (199 / 10) = Safe \<and>
   (20 :: number) \<le> 25 \<and> (25 :: number) < 40 \<and> getRiskLevel 25 = Low \<and>
   (40 :: number) \<le> 44 \<and> (44 :: number) < 60 \<and> getRiskLevel 44 = Medium \<and>
   (60 :: number) \<le> 799 / 10 \<and> (799 / 10 :: number) < 80 \<and> getRiskLevel (799 / 10) = High \<and>
   (80 :: number) \<le> 100 \<and> getRiskLevel 100 = Critical"
  using getRiskLevel_buckets[of "199 / 10"] getRiskLevel_buckets[of 25]
    getRiskLevel_buckets[of 44] getRiskLevel_buckets[of "799 / 10"] getRiskLevel_buckets[of 100]
  by simp

section \<open>The high-risk predicate\<close>

text \<open>
  C3: for every signal collection, \<open>isHighRisk\<close> is true exactly when the risk score of
  the collection is at least 70, or some signal in it has type honeypot, or type
  rugpull_risk, or severity critical. In particular a collection of one signal of type
  honeypot and severity info is high risk, and the empty collection is not.
\<close>

theorem isHighRisk_iff:
  "(isHighRisk signals \<longleftrightarrow>
      calculateRiskScore signals \<ge> 70 \<or>
      (\<exists>s \<in> set signals. type' s = honeypot \<or> type' s = rugpull_risk \<or> severity s = critical)) \<and>
   (type' s = honeypot \<and> severity s = info \<longrightarrow> isHighRisk [s]) \<and>
   \<not> isHighRisk []"
  by (simp add: isHighRisk_def list_ex_iff calculateRiskScore_Nil)

theorem isHighRisk_iff_witness:
  "type' (sample honeypot info) = honeypot \<and> severity (sample honeypot info) = info \<and>
   isHighRisk [sample honeypot info] \<and>
   (\<exists>s \<in> set [sample honeypot info].
      type' s = honeypot \<or> type' s = rugpull_risk \<or> severity s = critical)"
  using isHighRisk_iff[of "[sample honeypot info]" "sample honeypot info"]
  unfolding sample_def by auto

section \<open>Filters\<close>

text \<open>
  C8: for every signal collection and every \<open>minSeverity\<close> of the enumeration,
  \<open>filterBySeverity\<close> returns exactly the signals whose severity weight is at least the
  weight of \<open>minSeverity\<close>, in the order of the input. Over signals of severities info,
  low, medium, high, critical, the threshold medium keeps the last three, in order.
\<close>

theorem filterBySeverity_threshold:
  "filterBySeverity signals minSeverity =
     filter (\<lambda>s. SEVERITY_WEIGHTS minSeverity \<le> SEVERITY_WEIGHTS (severity s)) signals \<and>
   filterBySeverity
     [a\<lparr>severity := info\<rparr>, b\<lparr>severity := low\<rparr>, c\<lparr>severity := medium\<rparr>,
      d\<lparr>severity := high\<rparr>, e\<lparr>severity := critical\<rparr>] medium =
     [c\<lparr>severity := medium\<rparr>, d\<lparr>severity := high\<rparr>, e\<lparr>severity := critical\<rparr>]"
  by (simp add: filterBySeverity_def)

text \<open>
  C9: for every signal collection, \<open>getCriticalSignals\<close> returns exactly the signals
  whose severity is critical or high, in the order of the input; it is
  \<open>filterBySeverity\<close> with the threshold high. Of a high, a critical and a medium
  signal it keeps the first two.
\<close>

theorem getCriticalSignals_high_or_critical:
  "getCriticalSignals signals =
     filter (\<lambda>s. severity s = critical \<or> severity s = high) signals \<and>
   getCriticalSignals signals = filterBySeverity signals high \<and>
   getCriticalSignals
     [a\<lparr>severity := high\<rparr>, b\<lparr>severity := critical\<rparr>, c\<lparr>severity := medium\<rparr>] =
     [a\<lparr>severity := high\<rparr>, b\<lparr>severity := critical\<rparr>]"
proof -
  have "(SEVERITY_WEIGHTS high \<le> SEVERITY_WEIGHTS v) = (v = critical \<or> v = high)" for v
    by (cases v) simp_all
  thus ?thesis by (simp add: getCriticalSignals_def filterBySeverity_def)
qed

section \<open>Sorting by severity\<close>

lemma severity_cmp_le_0:
  "severity_cmp a b \<le> 0 \<longleftrightarrow> SEVERITY_WEIGHTS (severity b) \<le> SEVERITY_WEIGHTS (severity a)"
  by (simp add: severity_cmp_def js_sub_def fl_le_0_iff)

lemma sort_insert_insort_key:
  assumes "\<And>x y. cmp x y \<le> 0 \<longleftrightarrow> key x \<le> (key y :: rat)"
  shows "sort_insert cmp x ys = insort_key key x ys"
  by (induction ys) (simp_all add: assms)

lemma Array_sort_sort_key:
  assumes "\<And>x y. cmp x y \<le> 0 \<longleftrightarrow> key x \<le> (key y :: rat)"
  shows "Array_sort cmp xs = sort_key key xs"
  by (induction xs) (simp_all add: sort_insert_insort_key[OF assms])

lemma Array_sort_severity:
  "Array_sort severity_cmp xs = sort_key (\<lambda>s. - SEVERITY_WEIGHTS (severity s)) xs"
  by (rule Array_sort_sort_key) (simp add: severity_cmp_le_0)

lemma Array_sort_severity_mset: "mset (Array_sort severity_cmp xs) = mset xs"
  by (simp add: Array_sort_severity)

lemma Array_sort_severity_sorted:
  "sorted_wrt (\<lambda>a b. SEVERITY_WEIGHTS (severity b) \<le> SEVERITY_WEIGHTS (severity a))
     (Array_sort severity_cmp xs)"
  using sorted_sort_key[of "\<lambda>s. - SEVERITY_WEIGHTS (severity s)" xs]
  by (simp add: Array_sort_severity sorted_map)

lemma Array_sort_severity_stable:
  "filter (\<lambda>s. SEVERITY_WEIGHTS (severity s) = w) (Array_sort severity_cmp xs) =
   filter (\<lambda>s. SEVERITY_WEIGHTS (severity s) = w) xs"
  using sort_key_stable[of "\<lambda>s. - SEVERITY_WEIGHTS (severity s)" "- w" xs]
  by (simp add: Array_sort_severity)

lemma sortBySeverity_eq:
  "signals < length h \<Longrightarrow>
     sortBySeverity h signals = Some (length h, h @ [Array_sort severity_cmp (h ! signals)])"
  by (simp add: sortBySeverity_def spread_def sort_in_place_def store_get_def nth_append)

text \<open>
  C7: \<open>sortBySeverity\<close> is a stable sort, descending by severity weight, that does not
  mutate its input. Called on an allocated array it returns a freshly allocated array;
  the store is otherwise as before, so the input array still holds what it held; the
  new array is a permutation of the input, ordered by non-increasing severity weight,
  and the signals of any one weight are in their original relative order. On
  \<open>[A(high), B(medium), C(high)]\<close> the result is \<open>[A, C, B]\<close>.
\<close>

theorem sortBySeverity_stable_sort:
  assumes "signals < length h"
  shows "(\<exists>out.
            sortBySeverity h signals = Some (length h, h @ [out]) \<and>
            store_get (h @ [out]) signals = store_get h signals \<and>
            mset out = mset (h ! signals) \<and>
            sorted_wrt (\<lambda>a b. SEVERITY_WEIGHTS (severity b) \<le> SEVERITY_WEIGHTS (severity a)) out \<and>
            (\<forall>w. filter (\<lambda>s. SEVERITY_WEIGHTS (severity s) = w) out =
                 filter (\<lambda>s. SEVERITY_WEIGHTS (severity s) = w) (h ! signals))) \<and>
         sortBySeverity [[a\<lparr>severity := high\<rparr>, b\<lparr>severity := medium\<rparr>, c\<lparr>severity := high\<rparr>]] 0 =
           Some (1, [[a\<lparr>severity := high\<rparr>, b\<lparr>severity := medium\<rparr>, c\<lparr>severity := high\<rparr>],
                     [a\<lparr>severity := high\<rparr>, c\<lparr>severity := high\<rparr>, b\<lparr>severity := medium\<rparr>]])"
proof -
  let ?out = "Array_sort severity_cmp (h ! signals)"
  have "sortBySeverity h signals = Some (length h, h @ [?out])"
    using assms by (rule sortBySeverity_eq)
  moreover have "store_get (h @ [?out]) signals = store_get h signals"
    using assms by (simp add: store_get_def nth_append)
  ultimately have general: "\<exists>out.
            sortBySeverity h signals = Some (length h, h @ [out]) \<and>
            store_get (h @ [out]) signals = store_get h signals \<and>
            mset out = mset (h ! signals) \<and>
            sorted_wrt (\<lambda>a b. SEVERITY_WEIGHTS (severity b) \<le> SEVERITY_WEIGHTS (severity a)) out \<and>
            (\<forall>w. filter (\<lambda>s. SEVERITY_WEIGHTS (severity s) = w) out =
                 filter (\<lambda>s. SEVERITY_WEIGHTS (severity s) = w) (h ! signals))"
    using Array_sort_severity_mset[of "h ! signals"] Array_sort_severity_sorted[of "h ! signals"]
      Array_sort_severity_stable[of _ "h ! signals"]
    by blast
  have example: "sortBySeverity [[a\<lparr>severity := high\<rparr>, b\<lparr>severity := medium\<rparr>, c\<lparr>severity := high\<rparr>]] 0 =
           Some (1, [[a\<lparr>severity := high\<rparr>, b\<lparr>severity := medium\<rparr>, c\<lparr>severity := high\<rparr>],
                     [a\<lparr>severity := high\<rparr>, c\<lparr>severity := high\<rparr>, b\<lparr>severity := medium\<rparr>]])"
    by (simp add: sortBySeverity_eq severity_cmp_le_0)
  show ?thesis using general example by (rule conjI)
qed

theorem sortBySeverity_stable_sort_witness:
  "(0 :: nat) < length sample_store \<and>
   (\<exists>out.
      sortBySeverity sample_store 0 = Some (length sample_store, sample_store @ [out]) \<and>
      store_get (sample_store @ [out]) 0 = store_get sample_store 0 \<and>
      mset out = mset (sample_store ! 0) \<and>
      sorted_wrt (\<lambda>a b. SEVERITY_WEIGHTS (severity b) \<le> SEVERITY_WEIGHTS (severity a)) out \<and>
      (\<forall>w. filter (\<lambda>s. SEVERITY_WEIGHTS (severity s) = w) out =
           filter (\<lambda>s. SEVERITY_WEIGHTS (severity s) = w) (sample_store ! 0)))"
proof -
  have len: "(0 :: nat) < length sample_store" by (simp add: sample_store_def)
  show ?thesis
    using len sortBySeverity_stable_sort[OF len, THEN conjunct1] by (rule conjI)
qed


section \<open>Rendering\<close>

lemma toUpperCase_severity_string:
  "toUpperCase (severity_string v) =
     (case v of info \<Rightarrow> ''INFO'' | low \<Rightarrow> ''LOW'' | medium \<Rightarrow> ''MEDIUM'' | high \<Rightarrow> ''HIGH''
      | critical \<Rightarrow> ''CRITICAL'')"
proof -
  have "toUpperCase ''info'' = ''INFO''" "toUpperCase ''low'' = ''LOW''"
    "toUpperCase ''medium'' = ''MEDIUM''" "toUpperCase ''high'' = ''HIGH''"
    "toUpperCase ''critical'' = ''CRITICAL''"
    by code_simp+
  thus ?thesis by (cases v) simp_all
qed

text \<open>
  C10: \<open>formatSignal\<close> depends only on the severity, the title and the summary of the
  signal: two signals that agree on these three fields are rendered as the same string,
  whatever their id, type, details, timestamp and metadata. The string is the severity
  indicator, a space, the upper-cased severity label in square brackets, a space, the
  title, a colon and a space, and the summary.
\<close>

theorem formatSignal_fields:
  "(severity a = severity b \<and> title a = title b \<and> summary a = summary b \<longrightarrow>
      formatSignal a = formatSignal b) \<and>
   formatSignal a =
     severityEmoji (severity a) @ '' ['' @
     (case severity a of info \<Rightarrow> ''INFO'' | low \<Rightarrow> ''LOW'' | medium \<Rightarrow> ''MEDIUM''
      | high \<Rightarrow> ''HIGH'' | critical \<Rightarrow> ''CRITICAL'')
     @ ''] '' @ title a @ '': '' @ summary a"
  by (simp add: formatSignal_def toUpperCase_severity_string)

theorem formatSignal_fields_witness:
  "severity (sample honeypot high) =
     severity ((sample whale_movement high)
       \<lparr>id' := ''sig-2'', details := Some ''more'', timestamp := 5, metadata := Some []\<rparr>) \<and>
   title (sample honeypot high) =
     title ((sample whale_movement high)
       \<lparr>id' := ''sig-2'', details := Some ''more'', timestamp := 5, metadata := Some []\<rparr>) \<and>
   summary (sample honeypot high) =
     summary ((sample whale_movement high)
       \<lparr>id' := ''sig-2'', details := Some ''more'', timestamp := 5, metadata := Some []\<rparr>) \<and>
   formatSignal (sample honeypot high) =
     formatSignal ((sample whale_movement high)
       \<lparr>id' := ''sig-2'', details := Some ''more'', timestamp := 5, metadata := Some []\<rparr>) \<and>
   formatSignal (sample honeypot high) =
     severityEmoji high @ '' [HIGH] Title: Summary''"
  using formatSignal_fields[of "sample honeypot high"
      "(sample whale_movement high)
         \<lparr>id' := ''sig-2'', details := Some ''more'', timestamp := 5, metadata := Some []\<rparr>"]
  unfolding sample_def by auto

end
